theory Spec2Isabelle
  imports Main "HOL-Library.Sublist" "HOL-Library.AList"
begin

section \<open>Python strings\<close>

text \<open>
  A Python \<open>str\<close> is modelled as a \<open>string\<close>, one \<open>char\<close> per code point; the model
  covers the code points below 256. On that range \<open>str.lower\<close> maps \<open>A\<close>..\<open>Z\<close> and the
  Latin-1 capitals \<open>0xC0\<close>..\<open>0xDE\<close> (without the multiplication sign \<open>0xD7\<close>) to the
  code point 32 above, which is the same code point with bit 5 set.
\<close>

definition isupper :: "char \<Rightarrow> bool" where
  "isupper c =
     (let n = (of_char c :: nat) in
      if 65 \<le> n \<and> n \<le> 90 then True
      else if n = 215 then False
      else 192 \<le> n \<and> n \<le> 222)"

definition lower_char :: "char \<Rightarrow> char" where
  "lower_char c =
     (if isupper c
      then (case c of Char b0 b1 b2 b3 b4 b5 b6 b7 \<Rightarrow> Char b0 b1 b2 b3 b4 True b6 b7)
      else c)"

definition lower :: "string \<Rightarrow> string" where
  "lower s = map lower_char s"

text \<open>
  \<open>str.upper\<close> on the same range: the letters \<open>a\<close>..\<open>z\<close> and the Latin-1 small letters
  \<open>0xE0\<close>..\<open>0xFE\<close> (without the division sign \<open>0xF7\<close>) go to the code point 32
  below, which is the same code point with bit 5 cleared, and the sharp s \<open>0xDF\<close> becomes
  the two letters \<open>SS\<close>. The capitals of the micro sign \<open>0xB5\<close> and of \<open>0xFF\<close> are code
  points above 255, outside the range of the model, which leaves these two characters as
  they are. The pipeline applies \<open>str.upper\<close> to the priority labels only.
\<close>

definition islower :: "char \<Rightarrow> bool" where
  "islower c =
     (let n = (of_char c :: nat) in
      if 97 \<le> n \<and> n \<le> 122 then True
      else if n = 247 then False
      else 224 \<le> n \<and> n \<le> 254)"

definition upper_char :: "char \<Rightarrow> string" where
  "upper_char c =
     (if islower c
      then (case c of Char b0 b1 b2 b3 b4 b5 b6 b7 \<Rightarrow> [Char b0 b1 b2 b3 b4 False b6 b7])
      else if c = CHR 0xDF then ''SS''
      else [c])"

definition upper :: "string \<Rightarrow> string" where
  "upper s = concat (map upper_char s)"

text \<open>\<open>sub in s\<close> on strings: \<open>sub\<close> occurs in \<open>s\<close> as a contiguous block.\<close>

fun contains :: "string \<Rightarrow> string \<Rightarrow> bool" where
  "contains sub [] = (sub = [])"
| "contains sub (c # cs) = (prefix sub (c # cs) \<or> contains sub cs)"

text \<open>\<open>s.startswith(p)\<close>.\<close>

definition startswith :: "string \<Rightarrow> string \<Rightarrow> bool" where
  "startswith s p = prefix p s"





text \<open>Decimal rendering of integers, as \<open>str(n)\<close> and the format \<open>{n:04d}\<close> give it.\<close>

definition digit_char :: "nat \<Rightarrow> char" where
  "digit_char d = ''0123456789'' ! d"

function str_nat :: "nat \<Rightarrow> string" where
  "str_nat n = (if n < 10 then [digit_char n] else str_nat (n div 10) @ [digit_char (n mod 10)])"
  by pat_completeness auto
termination
  by (relation "measure id") auto

declare str_nat.simps [simp del]

definition str_int :: "int \<Rightarrow> string" where
  "str_int i = (if i < 0 then CHR ''-'' # str_nat (nat (- i)) else str_nat (nat i))"

definition format_04d :: "nat \<Rightarrow> string" where
  "format_04d n = replicate (4 - length (str_nat n)) CHR ''0'' @ str_nat n"

section \<open>Errors\<close>

datatype error = OSError | ValueError | UnicodeDecodeError | FileExistsError

section \<open>Configuration loader\<close>









section \<open>Data model\<close>

text \<open>
  The dictionaries that the generators build have fixed string keys, so each is a
  record with one field per key; a key that only some entries carry is an optional
  field. The acceptance criteria are a dictionary keyed by story identifier, kept as
  an association list in insertion order.
\<close>

record feature_spec =
  spec_title :: string
  spec_description :: string
  spec_type :: string
  spec_tech_stack :: string
  spec_mvp_features :: "string list"
  spec_v2_features :: "string list"
  spec_target_users :: string
  spec_success_metrics :: "string list"

record story =
  story_id :: string
  story_role :: string
  story_action :: string
  story_benefit :: string
  story_priority :: string
  story_points :: int

record criteria_block =
  cb_story :: string
  cb_criteria :: "string list"

type_synonym criteria = "(string \<times> criteria_block) list"

record requirement =
  req_category :: string
  req_requirement :: string
  req_technologies :: "string list"
  req_priority :: string

record endpoint =
  ep_path :: string
  ep_method :: string
  ep_description :: string
  ep_auth :: "bool option"
  ep_request :: "(string \<times> string) list option"
  ep_response :: "(string \<times> string) list"

record api_spec =
  api_version :: string
  api_base_url :: string
  api_endpoints :: "endpoint list"

record column =
  col_name :: string
  col_type :: string
  col_primary_key :: "bool option"
  col_unique :: "bool option"
  col_foreign_key :: "string option"

record db_table =
  tbl_name :: string
  tbl_columns :: "column list"

record db_schema =
  db_database :: string
  db_tables :: "db_table list"

record feature_data =
  fd_id :: string
  fd_idea :: string
  fd_specification :: feature_spec
  fd_user_stories :: "story list"
  fd_acceptance_criteria :: criteria
  fd_technical_requirements :: "requirement list"
  fd_api_specification :: api_spec
  fd_database_schema :: db_schema
  fd_status :: string
  fd_created_at :: string
  fd_pm_agent :: string

section \<open>Specification builder\<close>

text \<open>\<open>random.choice\<close> is a parameter: any function that picks an entry of a list.\<close>

definition feature_types :: "string list" where
  "feature_types =
     [''web_application'', ''mobile_app'', ''api_service'',
      ''cli_tool'', ''data_pipeline'', ''automation_script'']"

definition default_tech_stack :: string where
  "default_tech_stack = ''Modern web stack (TBD by Dev team)''"

text \<open>\<open>tech_stack or default\<close>: \<open>None\<close> and the empty string both give the default.\<close>

definition tech_stack_or_default :: "string option \<Rightarrow> string" where
  "tech_stack_or_default tech_stack =
     (case tech_stack of
        None \<Rightarrow> default_tech_stack
      | Some t \<Rightarrow> if t = [] then default_tech_stack else t)"

definition create_feature_spec ::
  "(string list \<Rightarrow> string) \<Rightarrow> string \<Rightarrow> string option \<Rightarrow> feature_spec" where
  "create_feature_spec choice idea tech_stack =
     \<lparr> spec_title = idea,
       spec_description = ''A comprehensive solution for '' @ idea,
       spec_type = choice feature_types,
       spec_tech_stack = tech_stack_or_default tech_stack,
       spec_mvp_features =
         [''Core '' @ idea @ '' functionality'',
          ''User authentication'',
          ''Basic CRUD operations'',
          ''Simple dashboard''],
       spec_v2_features =
         [''Advanced analytics'',
          ''Third-party integrations'',
          ''Mobile responsiveness'',
          ''Performance optimizations''],
       spec_target_users = ''End users and administrators'',
       spec_success_metrics =
         [''User adoption rate'',
          ''Feature completion'',
          ''Performance benchmarks''] \<rparr>"

section \<open>Story generator\<close>

definition generate_user_stories :: "feature_spec \<Rightarrow> story list" where
  "generate_user_stories spec =
     [ \<lparr> story_id = ''US-001'',
         story_role = ''As a user'',
         story_action = ''I want to access '' @ spec_title spec,
         story_benefit = ''So that I can use the core functionality'',
         story_priority = ''high'',
         story_points = 3 \<rparr>,
       \<lparr> story_id = ''US-002'',
         story_role = ''As a user'',
         story_action = ''I want to create an account'',
         story_benefit = ''So that I can save my data'',
         story_priority = ''high'',
         story_points = 5 \<rparr>,
       \<lparr> story_id = ''US-003'',
         story_role = ''As a user'',
         story_action = ''I want to manage my content'',
         story_benefit = ''So that I can organize my work'',
         story_priority = ''high'',
         story_points = 5 \<rparr>,
       \<lparr> story_id = ''US-004'',
         story_role = ''As an admin'',
         story_action = ''I want to view user analytics'',
         story_benefit = ''So that I can understand usage patterns'',
         story_priority = ''medium'',
         story_points = 8 \<rparr> ]
     @
     [ \<lparr> story_id = ''US-005'',
         story_role = ''As a user'',
         story_action = ''I want to export my data'',
         story_benefit = ''So that I can use it elsewhere'',
         story_priority = ''low'',
         story_points = 3 \<rparr>,
       \<lparr> story_id = ''US-006'',
         story_role = ''As a user'',
         story_action = ''I want to receive notifications'',
         story_benefit = ''So that I stay updated'',
         story_priority = ''low'',
         story_points = 5 \<rparr> ]"

section \<open>Criteria generator\<close>

definition auth_checklist :: "string list" where
  "auth_checklist =
     [''User can register with email/password'',
      ''User can login with credentials'',
      ''User can logout'',
      ''Password must be at least 8 characters'',
      ''User receives confirmation email'']"

definition crud_checklist :: "string list" where
  "crud_checklist =
     [''User can create new items'',
      ''User can read/view items'',
      ''User can update items'',
      ''User can delete items'',
      ''Changes persist after refresh'']"

definition dashboard_checklist :: "string list" where
  "dashboard_checklist =
     [''Dashboard displays user count'',
      ''Charts show activity over time'',
      ''Data updates in real-time'',
      ''Export function works'']"

definition generic_checklist :: "string list" where
  "generic_checklist =
     [''Feature is accessible from main navigation'',
      ''Feature works on desktop and mobile'',
      ''Response time is under 2 seconds'',
      ''Error handling is implemented'']"

text \<open>The \<open>if\<close>/\<open>elif\<close> chain of the loop body.\<close>

definition story_criteria :: "string \<Rightarrow> string list" where
  "story_criteria action =
     (if contains ''account'' (lower action) then auth_checklist
      else if contains ''manage'' (lower action) then crud_checklist
      else if contains ''analytics'' (lower action) then dashboard_checklist
      else generic_checklist)"

text \<open>
  The loop: \<open>criteria[story['id']] = {...}\<close> replaces the entry of a key already
  there, in its place, and appends a new key at the end.
\<close>

fun criteria_loop :: "criteria \<Rightarrow> story list \<Rightarrow> criteria" where
  "criteria_loop criteria [] = criteria"
| "criteria_loop criteria (story # rest) =
     criteria_loop
       (AList.update (story_id story)
          \<lparr> cb_story = story_action story,
            cb_criteria = story_criteria (story_action story) \<rparr>
          criteria)
       rest"

definition generate_acceptance_criteria :: "feature_spec \<Rightarrow> story list \<Rightarrow> criteria" where
  "generate_acceptance_criteria spec stories = criteria_loop [] stories"

section \<open>Technical requirements, API and schema generators\<close>

definition generate_technical_requirements ::
  "feature_spec \<Rightarrow> string option \<Rightarrow> requirement list" where
  "generate_technical_requirements spec tech_stack =
     [ \<lparr> req_category = ''Frontend'',
         req_requirement = ''Responsive web interface'',
         req_technologies = [''React'', ''Vue'', ''Angular''],
         req_priority = ''high'' \<rparr>,
       \<lparr> req_category = ''Backend'',
         req_requirement = ''RESTful API'',
         req_technologies = [''Node.js/Express'', ''Python/FastAPI'', ''Go''],
         req_priority = ''high'' \<rparr>,
       \<lparr> req_category = ''Database'',
         req_requirement = ''Persistent data storage'',
         req_technologies = [''PostgreSQL'', ''MongoDB'', ''SQLite''],
         req_priority = ''high'' \<rparr>,
       \<lparr> req_category = ''Authentication'',
         req_requirement = ''Secure user authentication'',
         req_technologies = [''JWT'', ''OAuth2'', ''Session-based''],
         req_priority = ''high'' \<rparr>,
       \<lparr> req_category = ''Testing'',
         req_requirement = ''Automated test coverage'',
         req_technologies = [''Jest'', ''PyTest'', ''Cypress''],
         req_priority = ''medium'' \<rparr>,
       \<lparr> req_category = ''Deployment'',
         req_requirement = ''Containerized deployment'',
         req_technologies = [''Docker'', ''Docker Compose''],
         req_priority = ''medium'' \<rparr> ]"

definition generate_api_spec :: "feature_spec \<Rightarrow> api_spec" where
  "generate_api_spec spec =
     \<lparr> api_version = ''v1'',
       api_base_url = ''/api/v1'',
       api_endpoints =
         [ \<lparr> ep_path = ''/auth/register'',
             ep_method = ''POST'',
             ep_description = ''Register new user'',
             ep_auth = None,
             ep_request = Some [(''email'', ''string''), (''password'', ''string'')],
             ep_response = [(''token'', ''string''), (''user'', ''object'')] \<rparr>,
           \<lparr> ep_path = ''/auth/login'',
             ep_method = ''POST'',
             ep_description = ''User login'',
             ep_auth = None,
             ep_request = Some [(''email'', ''string''), (''password'', ''string'')],
             ep_response = [(''token'', ''string''), (''user'', ''object'')] \<rparr>,
           \<lparr> ep_path = ''/items'',
             ep_method = ''GET'',
             ep_description = ''List all items'',
             ep_auth = Some True,
             ep_request = None,
             ep_response = [(''items'', ''array'')] \<rparr>,
           \<lparr> ep_path = ''/items'',
             ep_method = ''POST'',
             ep_description = ''Create new item'',
             ep_auth = Some True,
             ep_request = Some [(''title'', ''string''), (''content'', ''string'')],
             ep_response = [(''item'', ''object'')] \<rparr>,
           \<lparr> ep_path = ''/items/:id'',
             ep_method = ''GET'',
             ep_description = ''Get single item'',
             ep_auth = Some True,
             ep_request = None,
             ep_response = [(''item'', ''object'')] \<rparr>,
           \<lparr> ep_path = ''/items/:id'',
             ep_method = ''PUT'',
             ep_description = ''Update item'',
             ep_auth = Some True,
             ep_request = Some [(''title'', ''string''), (''content'', ''string'')],
             ep_response = [(''item'', ''object'')] \<rparr>,
           \<lparr> ep_path = ''/items/:id'',
             ep_method = ''DELETE'',
             ep_description = ''Delete item'',
             ep_auth = Some True,
             ep_request = None,
             ep_response = [(''success'', ''boolean'')] \<rparr> ] \<rparr>"

definition plain_column :: "string \<Rightarrow> string \<Rightarrow> column" where
  "plain_column name ty =
     \<lparr> col_name = name, col_type = ty,
       col_primary_key = None, col_unique = None, col_foreign_key = None \<rparr>"

definition generate_database_schema :: "feature_spec \<Rightarrow> db_schema" where
  "generate_database_schema spec =
     \<lparr> db_database = ''PostgreSQL'',
       db_tables =
         [ \<lparr> tbl_name = ''users'',
             tbl_columns =
               [ (plain_column ''id'' ''UUID'') \<lparr> col_primary_key := Some True \<rparr>,
                 (plain_column ''email'' ''VARCHAR(255)'') \<lparr> col_unique := Some True \<rparr>,
                 plain_column ''password_hash'' ''VARCHAR(255)'',
                 plain_column ''created_at'' ''TIMESTAMP'',
                 plain_column ''updated_at'' ''TIMESTAMP'' ] \<rparr>,
           \<lparr> tbl_name = ''items'',
             tbl_columns =
               [ (plain_column ''id'' ''UUID'') \<lparr> col_primary_key := Some True \<rparr>,
                 (plain_column ''user_id'' ''UUID'') \<lparr> col_foreign_key := Some ''users.id'' \<rparr>,
                 plain_column ''title'' ''VARCHAR(255)'',
                 plain_column ''content'' ''TEXT'',
                 plain_column ''status'' ''VARCHAR(50)'',
                 plain_column ''created_at'' ''TIMESTAMP'',
                 plain_column ''updated_at'' ''TIMESTAMP'' ] \<rparr> ] \<rparr>"

section \<open>Identifier allocator and the artifact root\<close>

text \<open>
  The artifact root is the listing of the directory \<open>projects\<close>: the entry names, each
  a directory or a regular file. The pattern \<open>feat_*\<close> matches the names that start
  with \<open>feat_\<close>, whatever follows and whatever the entry is.
\<close>

datatype entry_kind = Directory | RegularFile

type_synonym listing = "(string \<times> entry_kind) list"

definition glob_feat :: "listing \<Rightarrow> listing" where
  "glob_feat root = filter (\<lambda>entry. startswith (fst entry) ''feat_'') root"

definition generate_feature_id :: "string \<Rightarrow> listing \<Rightarrow> string" where
  "generate_feature_id timestamp root =
     (let existing = length (glob_feat root)
      in ''feat_'' @ timestamp @ ''_'' @ format_04d (existing + 1))"

text \<open>\<open>mkdir(exist_ok=True)\<close> of an entry of the root.\<close>

definition mkdir_exist_ok :: "string \<Rightarrow> listing \<Rightarrow> error + listing" where
  "mkdir_exist_ok name root =
     (case map_of root name of
        None \<Rightarrow> Inr (root @ [(name, Directory)])
      | Some Directory \<Rightarrow> Inr root
      | Some RegularFile \<Rightarrow> Inl FileExistsError)"

section \<open>Summary document\<close>

definition nl :: string where
  "nl = [CHR 0x0A]"

definition readme_features :: "string list \<Rightarrow> string" where
  "readme_features feats = concat (map (\<lambda>feat. ''- '' @ feat @ nl) feats)"

definition readme_criteria :: "criteria \<Rightarrow> string \<Rightarrow> string" where
  "readme_criteria acceptance sid =
     (case map_of acceptance sid of
        None \<Rightarrow> []
      | Some block \<Rightarrow>
          ''**Acceptance Criteria:**'' @ nl
          @ concat (map (\<lambda>c. ''- [ ] '' @ c @ nl) (cb_criteria block))
          @ nl)"

definition readme_story :: "criteria \<Rightarrow> story \<Rightarrow> string" where
  "readme_story acceptance story =
     ''### '' @ story_id story @ '' ('' @ upper (story_priority story) @ '')'' @ nl
     @ nl @ ''**'' @ story_role story @ '',** '' @ story_action story @ nl
     @ ''*'' @ story_benefit story @ ''*'' @ nl @ nl
     @ ''**Story Points:** '' @ str_int (story_points story) @ nl @ nl
     @ readme_criteria acceptance (story_id story)"

definition readme_endpoint :: "endpoint \<Rightarrow> string" where
  "readme_endpoint endpoint =
     ''### '' @ ep_method endpoint @ '' '' @ ep_path endpoint @ nl
     @ ep_description endpoint @ nl @ nl"

definition generate_readme :: "feature_data \<Rightarrow> string" where
  "generate_readme data =
     (let spec = fd_specification data in
      ''# '' @ spec_title spec @ nl
      @ nl
      @ ''## Description'' @ nl
      @ spec_description spec @ nl
      @ nl
      @ ''## Tech Stack'' @ nl
      @ spec_tech_stack spec @ nl
      @ nl
      @ ''## MVP Features'' @ nl
      @ readme_features (spec_mvp_features spec)
      @ nl @ ''## User Stories'' @ nl @ nl
      @ concat (map (readme_story (fd_acceptance_criteria data)) (take 4 (fd_user_stories data)))
      @ nl @ ''## API Endpoints'' @ nl @ nl
      @ concat (map readme_endpoint (api_endpoints (fd_api_specification data)))
      @ nl @ ''## Status'' @ nl
      @ ''- Current Status: '' @ fd_status data @ nl
      @ ''- Created: '' @ fd_created_at data @ nl
      @ ''- Next Step: Awaiting development'' @ nl)"

section \<open>The pipeline\<close>

text \<open>
  What one run reads from outside: the listing of the artifact root, the clock (read
  once as \<open>%Y%m%d\<close> for the identifier and once in ISO format for the creation time)
  and the random choice. The run returns the feature record and the new listing; the
  two files go inside the feature's own directory and leave the listing as it is.
  The summary document is the text that \<open>_generate_readme\<close> returns. The contents of
  the feature's directory, the serialised record that \<open>json.dump\<close> writes there, a
  failure of these two writes and the console output are not modelled.
\<close>

record world =
  projects_dir :: listing
  now_ymd :: string
  now_iso :: string
  random_choice :: "string list \<Rightarrow> string"

definition generate_feature ::
  "world \<Rightarrow> string \<Rightarrow> string option \<Rightarrow> error + (feature_data \<times> listing)" where
  "generate_feature w project_idea tech_stack =
     (let feature_id = generate_feature_id (now_ymd w) (projects_dir w) in
      case mkdir_exist_ok feature_id (projects_dir w) of
        Inl e \<Rightarrow> Inl e
      | Inr projects' \<Rightarrow>
          (let spec = create_feature_spec (random_choice w) project_idea tech_stack;
               stories = generate_user_stories spec;
               criteria = generate_acceptance_criteria spec stories;
               tech_reqs = generate_technical_requirements spec tech_stack;
               api = generate_api_spec spec;
               db = generate_database_schema spec;
               feature_data =
                 \<lparr> fd_id = feature_id,
                   fd_idea = project_idea,
                   fd_specification = spec,
                   fd_user_stories = stories,
                   fd_acceptance_criteria = criteria,
                   fd_technical_requirements = tech_reqs,
                   fd_api_specification = api,
                   fd_database_schema = db,
                   fd_status = ''spec_ready'',
                   fd_created_at = now_iso w,
                   fd_pm_agent = ''v1.0'' \<rparr>
           in Inr (feature_data, projects')))"

section \<open>Notions used in the statements\<close>

text \<open>The trigger words of the criteria generator, and those that an action text
  contains, letter case ignored the way the generator ignores it.\<close>

definition triggers :: "string list" where
  "triggers = [''account'', ''manage'', ''analytics'']"

definition matched_triggers :: "string \<Rightarrow> string list" where
  "matched_triggers text = filter (\<lambda>t. contains t (lower text)) triggers"

text \<open>Reading a decimal numeral back, to say which number a sequence field denotes.\<close>

definition digit_value :: "char \<Rightarrow> nat" where
  "digit_value c = of_char c - 48"

definition parse_decimal :: "string \<Rightarrow> nat" where
  "parse_decimal s = foldl (\<lambda>acc c. 10 * acc + digit_value c) 0 s"

text \<open>The sequence number that the allocator gives against a listing.\<close>

definition next_sequence :: "listing \<Rightarrow> nat" where
  "next_sequence root = length (glob_feat root) + 1"

text \<open>
  The criteria generator as an ordered list of rules, a trigger word and its checklist,
  tried in order with the generic checklist as the fallback: the form in which the
  order of the checks can be varied.
\<close>

definition checklist_rules :: "(string \<times> string list) list" where
  "checklist_rules =
     [(''account'', auth_checklist), (''manage'', crud_checklist),
      (''analytics'', dashboard_checklist)]"

fun first_match :: "(string \<times> string list) list \<Rightarrow> string \<Rightarrow> string list" where
  "first_match [] action = generic_checklist"
| "first_match ((t, checklist) # rules) action =
     (if contains t (lower action) then checklist else first_match rules action)"

text \<open>What a run hands on apart from the specification block: the identifier, the
  generated parts of the record, the summary document and the new listing.\<close>

definition downstream ::
  "feature_data \<times> listing \<Rightarrow>
   string \<times> story list \<times> criteria \<times> requirement list \<times> api_spec \<times> db_schema \<times> string \<times> listing"
  where
  "downstream run =
     (fd_id (fst run), fd_user_stories (fst run), fd_acceptance_criteria (fst run),
      fd_technical_requirements (fst run), fd_api_specification (fst run),
      fd_database_schema (fst run), generate_readme (fst run), snd run)"

text \<open>
  A word of small letters occurs in a text with letter case ignored when some contiguous
  block of the text agrees with the word letter by letter, each character of the block
  being the letter of the word or its capital. The capitals are given by a table, not by
  the case conversion of the program.
\<close>

definition small_letters :: string where
  "small_letters = ''abcdefghijklmnopqrstuvwxyz''"

definition capital_letters :: string where
  "capital_letters = ''ABCDEFGHIJKLMNOPQRSTUVWXYZ''"

definition same_letter :: "char \<Rightarrow> char \<Rightarrow> bool" where
  "same_letter c t = (c = t \<or> (t, c) \<in> set (zip small_letters capital_letters))"

fun starts_ignoring_case :: "string \<Rightarrow> string \<Rightarrow> bool" where
  "starts_ignoring_case [] text = True"
| "starts_ignoring_case (t # ts) [] = False"
| "starts_ignoring_case (t # ts) (c # cs) = (same_letter c t \<and> starts_ignoring_case ts cs)"

fun occurs_ignoring_case :: "string \<Rightarrow> string \<Rightarrow> bool" where
  "occurs_ignoring_case word [] = (word = [])"
| "occurs_ignoring_case word (c # cs) =
     (starts_ignoring_case word (c # cs) \<or> occurs_ignoring_case word cs)"

section \<open>Facts about the string operations\<close>

lemma contains_sublist: "contains sub s = sublist sub s"
  by (induction s) (simp_all add: sublist_Cons_right)




lemma lower_append: "lower (a @ b) = lower a @ lower b"
  by (simp add: lower_def)

lemma prefix_before_sep:
  assumes "c \<notin> set t" and "prefix t (p @ c # s)"
  shows "prefix t p"
  using assms by (auto simp: prefix_append prefix_Cons)

lemma sublist_across_sep:
  assumes "c \<notin> set t"
  shows "sublist t (p @ c # s) \<longleftrightarrow> sublist t p \<or> sublist t s"
  using assms
proof (induction p)
  case Nil
  then show ?case by (auto simp: sublist_Cons_right prefix_Cons)
next
  case (Cons x p)
  have "prefix t ((x # p) @ c # s) \<longleftrightarrow> prefix t (x # p)"
    using prefix_before_sep [of c t "x # p" s] Cons.prems prefix_prefix by blast
  then have "prefix t (x # p @ c # s) \<longleftrightarrow> prefix t (x # p)" by simp
  with Cons show ?case by (auto simp: sublist_Cons_right)
qed

lemma digit_value_char: "d < 10 \<Longrightarrow> digit_value (digit_char d) = d"
proof -
  assume "d < 10"
  then consider "d = 0" | "d = 1" | "d = 2" | "d = 3" | "d = 4" | "d = 5" | "d = 6"
    | "d = 7" | "d = 8" | "d = 9" by atomize_elim arith
  then show ?thesis
    by cases (simp_all add: digit_value_def digit_char_def)
qed

lemma parse_decimal_snoc: "parse_decimal (s @ [c]) = 10 * parse_decimal s + digit_value c"
  by (simp add: parse_decimal_def)

lemma parse_str_nat: "parse_decimal (str_nat n) = n"
proof (induction n rule: str_nat.induct)
  case (1 n)
  show ?case
  proof (cases "n < 10")
    case True
    then show ?thesis
      by (subst str_nat.simps) (simp add: parse_decimal_def digit_value_char)
  next
    case False
    with 1 have "parse_decimal (str_nat (n div 10)) = n div 10" by simp
    with False show ?thesis
      by (subst str_nat.simps) (simp add: parse_decimal_snoc digit_value_char)
  qed
qed

lemma parse_leading_zeros: "parse_decimal (replicate k CHR ''0'' @ s) = parse_decimal s"
proof -
  have "foldl (\<lambda>acc c. 10 * acc + digit_value c) 0 (replicate k CHR ''0'') = 0"
    by (induction k) (simp_all add: digit_value_def)
  then show ?thesis by (simp add: parse_decimal_def)
qed

lemma parse_format_04d: "parse_decimal (format_04d n) = n"
  by (simp add: format_04d_def parse_leading_zeros parse_str_nat)

lemma length_str_nat_small: "n < 10000 \<Longrightarrow> length (str_nat n) \<le> 4"
proof -
  assume n: "n < 10000"
  have a: "\<And>m. m < 10 \<Longrightarrow> length (str_nat m) = 1" by (subst str_nat.simps) simp
  have b: "\<And>m. m < 100 \<Longrightarrow> length (str_nat m) \<le> 2"
    by (subst str_nat.simps) (auto simp: a)
  have c: "\<And>m. m < 1000 \<Longrightarrow> length (str_nat m) \<le> 3"
  proof -
    fix m :: nat assume "m < 1000"
    then have "m div 10 < 100" by simp
    then have "length (str_nat (m div 10)) \<le> 2" by (rule b)
    then show "length (str_nat m) \<le> 3" by (subst str_nat.simps) (simp add: a)
  qed
  from n have "n div 10 < 1000" by simp
  then have "length (str_nat (n div 10)) \<le> 3" by (rule c)
  then show ?thesis by (subst str_nat.simps) (simp add: a)
qed

lemma length_format_04d: "4 \<le> length (format_04d n)"
  by (simp add: format_04d_def)

lemma length_format_04d_small: "n < 10000 \<Longrightarrow> length (format_04d n) = 4"
  using length_str_nat_small [of n] by (simp add: format_04d_def)

lemma of_char_lower_char:
  "(of_char (lower_char c) :: nat) = (if isupper c then of_char c + 32 else of_char c)"
proof (cases c)
  case (Char b0 b1 b2 b3 b4 b5 b6 b7)
  show ?thesis
    unfolding Char
    by (cases b0; cases b1; cases b2; cases b3; cases b4; cases b5; cases b6; cases b7)
       (simp_all add: lower_char_def isupper_def)
qed

lemma char_eq_of_char: "(c = d) = ((of_char c :: nat) = of_char d)"
  by simp

lemma small_letter_range:
  assumes "t \<in> set small_letters"
  shows "97 \<le> (of_char t :: nat) \<and> (of_char t :: nat) \<le> 122"
  using assms unfolding small_letters_def
  apply (simp only: set_simps insert_iff empty_iff)
  apply (elim disjE FalseE)
  apply simp_all
  done

lemma capital_of_small:
  assumes "t \<in> set small_letters"
  shows "((t, c) \<in> set (zip small_letters capital_letters))
           = ((of_char c :: nat) + 32 = of_char t)"
  using assms unfolding small_letters_def capital_letters_def
  apply (simp only: set_simps insert_iff empty_iff)
  apply (elim disjE FalseE)
  apply (simp_all add: char_eq_of_char [of c])
  done

lemma letter_arith:
  fixes n m :: nat
  assumes "97 \<le> m \<and> m \<le> 122"
  shows "((if (if 65 \<le> n \<and> n \<le> 90 then True
                else if n = 215 then False else 192 \<le> n \<and> n \<le> 222)
           then n + 32 else n) = m)
         = (n = m \<or> n + 32 = m)"
  using assms by auto

lemma lower_char_small:
  assumes "t \<in> set small_letters"
  shows "(lower_char c = t) = same_letter c t"
proof -
  let ?n = "of_char c :: nat"
  let ?m = "of_char t :: nat"
  have l: "(lower_char c = t) = ((if isupper c then ?n + 32 else ?n) = ?m)"
    unfolding char_eq_of_char [of "lower_char c"] of_char_lower_char ..
  have s: "same_letter c t = (?n = ?m \<or> ?n + 32 = ?m)"
    unfolding same_letter_def capital_of_small [OF assms] char_eq_of_char [of c] ..
  show ?thesis
    unfolding l s isupper_def Let_def
    by (rule letter_arith) (rule small_letter_range [OF assms])
qed

lemma prefix_lower_ignoring_case:
  assumes "set word \<subseteq> set small_letters"
  shows "prefix word (lower str) = starts_ignoring_case word str"
  using assms
proof (induction word str rule: starts_ignoring_case.induct)
  case (1 str)
  show ?case by simp
next
  case (2 t ts)
  show ?case by (simp add: lower_def)
next
  case (3 t ts c cs)
  then have "t \<in> set small_letters" and "set ts \<subseteq> set small_letters" by auto
  with 3 show ?case
    using lower_char_small [of t c] by (auto simp: lower_def)
qed

section \<open>The configuration loader\<close>












section \<open>The pipeline and its generators\<close>

lemma generate_feature_InrD:
  assumes "generate_feature w idea tech = Inr (data, root')"
  shows "mkdir_exist_ok (generate_feature_id (now_ymd w) (projects_dir w)) (projects_dir w) = Inr root'"
    and "fd_id data = generate_feature_id (now_ymd w) (projects_dir w)"
    and "fd_specification data = create_feature_spec (random_choice w) idea tech"
    and "fd_user_stories data = generate_user_stories (create_feature_spec (random_choice w) idea tech)"
    and "fd_acceptance_criteria data =
           generate_acceptance_criteria (create_feature_spec (random_choice w) idea tech)
             (generate_user_stories (create_feature_spec (random_choice w) idea tech))"
    and "fd_technical_requirements data =
           generate_technical_requirements (create_feature_spec (random_choice w) idea tech) tech"
    and "fd_api_specification data = generate_api_spec (create_feature_spec (random_choice w) idea tech)"
    and "fd_database_schema data = generate_database_schema (create_feature_spec (random_choice w) idea tech)"
  using assms by (auto simp: generate_feature_def Let_def split: sum.splits)


lemma format_04d_1: "format_04d (Suc 0) = ''0001''"
  by (simp add: format_04d_def str_nat.simps digit_char_def eval_nat_numeral)

lemma run_empty_root:
  "generate_feature \<lparr> projects_dir = [], now_ymd = ts, now_iso = created, random_choice = ch \<rparr> idea tech
   = Inr (\<lparr> fd_id = ''feat_'' @ ts @ ''_0001'',
             fd_idea = idea,
             fd_specification = create_feature_spec ch idea tech,
             fd_user_stories = generate_user_stories (create_feature_spec ch idea tech),
             fd_acceptance_criteria =
               generate_acceptance_criteria (create_feature_spec ch idea tech)
                 (generate_user_stories (create_feature_spec ch idea tech)),
             fd_technical_requirements =
               generate_technical_requirements (create_feature_spec ch idea tech) tech,
             fd_api_specification = generate_api_spec (create_feature_spec ch idea tech),
             fd_database_schema = generate_database_schema (create_feature_spec ch idea tech),
             fd_status = ''spec_ready'',
             fd_created_at = created,
             fd_pm_agent = ''v1.0'' \<rparr>,
           [(''feat_'' @ ts @ ''_0001'', Directory)])"
  by (simp add: generate_feature_def generate_feature_id_def glob_feat_def mkdir_exist_ok_def
      format_04d_1 Let_def)


text \<open>
  Claim C1, as the code has it: every run that returns a record, on any idea and any
  tech-stack argument, gives six user stories, six technical requirement rows, which are
  the rows Frontend, Backend, Database, Authentication, Testing and Deployment in this
  order, seven API endpoints and the two tables \<open>users\<close> and \<open>items\<close>.
\<close>

theorem generator_counts:
  assumes "generate_feature w idea tech_stack = Inr (data, root')"
  shows "length (fd_user_stories data) = 6
       \<and> length (fd_technical_requirements data) = 6
       \<and> map req_category (fd_technical_requirements data)
           = [''Frontend'', ''Backend'', ''Database'', ''Authentication'', ''Testing'',
              ''Deployment'']
       \<and> length (api_endpoints (fd_api_specification data)) = 7
       \<and> map tbl_name (db_tables (fd_database_schema data)) = [''users'', ''items'']"
proof -
  note r = generate_feature_InrD [OF assms]
  have "length (fd_user_stories data) = 6"
    unfolding r(4) generate_user_stories_def by simp
  moreover have "length (fd_technical_requirements data) = 6"
    unfolding r(6) generate_technical_requirements_def by simp
  moreover have "map req_category (fd_technical_requirements data)
           = [''Frontend'', ''Backend'', ''Database'', ''Authentication'', ''Testing'',
              ''Deployment'']"
    unfolding r(6) generate_technical_requirements_def by simp
  moreover have "length (api_endpoints (fd_api_specification data)) = 7"
    unfolding r(7) generate_api_spec_def by simp
  moreover have "map tbl_name (db_tables (fd_database_schema data)) = [''users'', ''items'']"
    unfolding r(8) generate_database_schema_def by simp
  ultimately show ?thesis by blast
qed

theorem generator_counts_witness:
  "length (generate_user_stories (create_feature_spec hd ''Task management app'' None)) = 6
   \<and> length (generate_technical_requirements
         (create_feature_spec hd ''Task management app'' None) None) = 6
   \<and> map req_category (generate_technical_requirements
         (create_feature_spec hd ''Task management app'' None) None)
       = [''Frontend'', ''Backend'', ''Database'', ''Authentication'', ''Testing'',
          ''Deployment'']
   \<and> length (api_endpoints (generate_api_spec
         (create_feature_spec hd ''Task management app'' None))) = 7
   \<and> map tbl_name (db_tables (generate_database_schema
         (create_feature_spec hd ''Task management app'' None))) = [''users'', ''items'']"
  using generator_counts [OF run_empty_root
      [of "''20260101''" "''2026-01-01T09:30:00.000000''" hd "''Task management app''" None]]
  by (simp only: feature_data.simps)

text \<open>The requirement rows are six, not four: a run on an empty artifact root.\<close>

theorem four_requirement_rows_counterexample:
  "\<not> isl (generate_feature
      \<lparr> projects_dir = [], now_ymd = ''20260101'', now_iso = ''2026-01-01T09:30:00.000000'',
        random_choice = hd \<rparr> ''Task management app'' None)
   \<and> length (fd_technical_requirements (fst (projr (generate_feature
      \<lparr> projects_dir = [], now_ymd = ''20260101'', now_iso = ''2026-01-01T09:30:00.000000'',
        random_choice = hd \<rparr> ''Task management app'' None)))) = 6"
  unfolding run_empty_root sum.sel sum.disc fst_conv feature_data.simps
    generate_technical_requirements_def
  by simp


section \<open>The criteria generator\<close>

lemma criteria_loop_other:
  "k \<notin> story_id ` set stories \<Longrightarrow> map_of (criteria_loop acc stories) k = map_of acc k"
  by (induction stories arbitrary: acc) (auto simp: update_conv')

lemma criteria_loop_lookup:
  assumes "distinct (map story_id stories)" and "story \<in> set stories"
  shows "map_of (criteria_loop acc stories) (story_id story) =
           Some \<lparr> cb_story = story_action story,
                  cb_criteria = story_criteria (story_action story) \<rparr>"
  using assms
proof (induction stories arbitrary: acc)
  case Nil
  then show ?case by simp
next
  case (Cons s rest)
  show ?case
  proof (cases "story = s")
    case True
    with Cons.prems have "story_id story \<notin> story_id ` set rest" by auto
    then show ?thesis using True by (simp add: criteria_loop_other update_conv')
  next
    case False
    with Cons.prems have "story \<in> set rest" "distinct (map story_id rest)" by auto
    then show ?thesis using Cons.IH by simp
  qed
qed

lemma lower_access: "lower ''I want to access '' = ''i want to access'' @ [CHR '' '']"
  by (simp add: lower_def lower_char_def isupper_def)

lemma action_contains_iff:
  assumes "t \<in> set triggers"
  shows "contains t (lower (''I want to access '' @ idea)) = contains t (lower idea)"
proof -
  have sp: "CHR '' '' \<notin> set t" using assms by (auto simp: triggers_def)
  have no: "\<not> contains t ''i want to access''" using assms by (auto simp: triggers_def)
  have "lower (''I want to access '' @ idea) = ''i want to access'' @ CHR '' '' # lower idea"
    unfolding lower_append lower_access by simp
  then show ?thesis
    using sublist_across_sep [OF sp, of "''i want to access''" "lower idea"] no
    by (simp add: contains_sublist)
qed

lemma matched_action: "matched_triggers (''I want to access '' @ idea) = matched_triggers idea"
  unfolding matched_triggers_def
  by (rule filter_cong) (rule refl, rule action_contains_iff)

lemma story_criteria_action: "story_criteria (''I want to access '' @ idea) = story_criteria idea"
proof -
  have "contains ''account'' (lower (''I want to access '' @ idea)) = contains ''account'' (lower idea)"
    "contains ''manage'' (lower (''I want to access '' @ idea)) = contains ''manage'' (lower idea)"
    "contains ''analytics'' (lower (''I want to access '' @ idea)) = contains ''analytics'' (lower idea)"
    by (rule action_contains_iff, simp add: triggers_def)+
  then show ?thesis unfolding story_criteria_def by (simp only:)
qed

lemma story_criteria_first_match: "story_criteria action = first_match checklist_rules action"
  by (simp add: story_criteria_def checklist_rules_def)

lemma first_match_none:
  "\<forall>r \<in> set rules. \<not> contains (fst r) (lower action) \<Longrightarrow> first_match rules action = generic_checklist"
  by (induction rules action rule: first_match.induct) auto

lemma first_match_only:
  "(t, cl) \<in> set rules \<Longrightarrow> contains t (lower action) \<Longrightarrow>
   \<forall>r \<in> set rules. contains (fst r) (lower action) \<longrightarrow> r = (t, cl) \<Longrightarrow>
   first_match rules action = cl"
  by (induction rules action rule: first_match.induct) auto

lemma first_match_order:
  assumes "set rules = set checklist_rules" and "length (matched_triggers action) \<le> 1"
  shows "first_match rules action = story_criteria action"
proof -
  let ?a = "contains ''account'' (lower action)"
  let ?m = "contains ''manage'' (lower action)"
  let ?n = "contains ''analytics'' (lower action)"
  from assms(2) consider "\<not> ?a \<and> \<not> ?m \<and> \<not> ?n" | "?a \<and> \<not> ?m \<and> \<not> ?n" | "\<not> ?a \<and> ?m \<and> \<not> ?n"
    | "\<not> ?a \<and> \<not> ?m \<and> ?n"
    by (auto simp: matched_triggers_def triggers_def split: if_splits)
  then show ?thesis
  proof cases
    case 1
    then have "first_match rules action = generic_checklist"
      using assms(1) by (intro first_match_none) (auto simp: checklist_rules_def)
    with 1 show ?thesis by (simp add: story_criteria_def)
  next
    case 2
    then have "first_match rules action = auth_checklist"
      using assms(1) by (intro first_match_only [where t = "''account''"]) (auto simp: checklist_rules_def)
    with 2 show ?thesis by (simp add: story_criteria_def)
  next
    case 3
    then have "first_match rules action = crud_checklist"
      using assms(1) by (intro first_match_only [where t = "''manage''"]) (auto simp: checklist_rules_def)
    with 3 show ?thesis by (simp add: story_criteria_def)
  next
    case 4
    then have "first_match rules action = dashboard_checklist"
      using assms(1) by (intro first_match_only [where t = "''analytics''"]) (auto simp: checklist_rules_def)
    with 4 show ?thesis by (simp add: story_criteria_def)
  qed
qed

lemma story_ids:
  "map story_id (generate_user_stories spec) =
     [''US-001'', ''US-002'', ''US-003'', ''US-004'', ''US-005'', ''US-006'']"
  by (simp add: generate_user_stories_def)

lemma story_ids_distinct: "distinct (map story_id (generate_user_stories spec))"
  unfolding story_ids by simp

lemma first_story:
  "\<lparr> story_id = ''US-001'', story_role = ''As a user'',
     story_action = ''I want to access '' @ spec_title spec,
     story_benefit = ''So that I can use the core functionality'',
     story_priority = ''high'', story_points = 3 \<rparr> \<in> set (generate_user_stories spec)"
  by (simp add: generate_user_stories_def)

lemma first_story_criteria:
  "map_of (generate_acceptance_criteria spec' (generate_user_stories spec)) ''US-001'' =
     Some \<lparr> cb_story = ''I want to access '' @ spec_title spec,
            cb_criteria = story_criteria (spec_title spec) \<rparr>"
  using criteria_loop_lookup [OF story_ids_distinct first_story, of "[]" spec]
  by (simp only: generate_acceptance_criteria_def story.simps story_criteria_action)

lemma checklists_differ:
  "auth_checklist \<noteq> generic_checklist" "crud_checklist \<noteq> generic_checklist"
  "dashboard_checklist \<noteq> generic_checklist" "auth_checklist \<noteq> crud_checklist"
  by (simp_all add: auth_checklist_def crud_checklist_def dashboard_checklist_def
      generic_checklist_def)

lemma checklist_lengths:
  "length auth_checklist = 5" "length crud_checklist = 5"
  "length dashboard_checklist = 4" "length generic_checklist = 4"
  by (simp_all add: auth_checklist_def crud_checklist_def dashboard_checklist_def
      generic_checklist_def)

lemma criteria_loop_append:
  "criteria_loop acc (a @ b) = criteria_loop (criteria_loop acc a) b"
  by (induction a arbitrary: acc) simp_all

lemma criteria_loop_last_wins:
  assumes "story_id story \<notin> story_id ` set later"
  shows "map_of (criteria_loop acc (earlier @ story # later)) (story_id story) =
           Some \<lparr> cb_story = story_action story,
                  cb_criteria = story_criteria (story_action story) \<rparr>"
proof -
  have "map_of (criteria_loop acc (earlier @ story # later)) (story_id story)
      = map_of (criteria_loop (criteria_loop acc (earlier @ [story])) later) (story_id story)"
    using criteria_loop_append [of acc "earlier @ [story]" later] by simp
  also have "\<dots> = map_of (criteria_loop acc (earlier @ [story])) (story_id story)"
    using assms by (rule criteria_loop_other)
  also have "\<dots> = Some \<lparr> cb_story = story_action story,
                  cb_criteria = story_criteria (story_action story) \<rparr>"
    by (simp add: criteria_loop_append update_conv')
  finally show ?thesis .
qed

text \<open>
  Claim C2. The block stored under a story's identifier, when no later story has the
  same identifier (a later one would replace the entry), holds the story's action text
  and the checklist chosen by first match: the authentication checklist if \<open>account\<close>
  occurs in the action text with letter case ignored, else the CRUD checklist if
  \<open>manage\<close> occurs so, else the dashboard checklist if \<open>analytics\<close> occurs so, else the
  generic fallback.
\<close>

theorem criteria_first_match_wins:
  assumes "story_id story \<notin> story_id ` set later"
  shows "map_of (generate_acceptance_criteria spec (earlier @ story # later)) (story_id story) =
     Some \<lparr> cb_story = story_action story,
            cb_criteria =
              (if occurs_ignoring_case ''account'' (story_action story) then auth_checklist
               else if occurs_ignoring_case ''manage'' (story_action story) then crud_checklist
               else if occurs_ignoring_case ''analytics'' (story_action story)
                 then dashboard_checklist
               else generic_checklist) \<rparr>"
proof -
  have test: "contains word (lower str) = occurs_ignoring_case word str"
    if small: "set word \<subseteq> set small_letters" for word str
  proof (induction str)
    case Nil
    show ?case by (simp add: lower_def)
  next
    case (Cons c cs)
    have "prefix word (lower (c # cs)) = starts_ignoring_case word (c # cs)"
      using small by (rule prefix_lower_ignoring_case)
    moreover have "lower (c # cs) = lower_char c # lower cs" by (simp add: lower_def)
    ultimately show ?case using Cons by simp
  qed
  have chain: "story_criteria action =
     (if occurs_ignoring_case ''account'' action then auth_checklist
      else if occurs_ignoring_case ''manage'' action then crud_checklist
      else if occurs_ignoring_case ''analytics'' action then dashboard_checklist
      else generic_checklist)" for action
    unfolding story_criteria_def
    by (simp add: test small_letters_def)
  show ?thesis
    using criteria_loop_last_wins [OF assms, of "[]" earlier]
    unfolding generate_acceptance_criteria_def chain .
qed

theorem criteria_first_match_wins_witness:
  "map_of (generate_acceptance_criteria (create_feature_spec hd ''Shop'' None)
      [ \<lparr> story_id = ''US-A'', story_role = ''As a user'',
          story_action = ''I want to MANAGE my Account'',
          story_benefit = ''So that I stay in control'',
          story_priority = ''high'', story_points = 2 \<rparr>,
        \<lparr> story_id = ''US-B'', story_role = ''As an admin'',
          story_action = ''I want to Manage ANALYTICS'',
          story_benefit = ''So that I see usage'',
          story_priority = ''low'', story_points = 3 \<rparr> ]) ''US-A''
   = Some \<lparr> cb_story = ''I want to MANAGE my Account'', cb_criteria = auth_checklist \<rparr>
   \<and> map_of (generate_acceptance_criteria (create_feature_spec hd ''Shop'' None)
      [ \<lparr> story_id = ''US-A'', story_role = ''As a user'',
          story_action = ''I want to MANAGE my Account'',
          story_benefit = ''So that I stay in control'',
          story_priority = ''high'', story_points = 2 \<rparr>,
        \<lparr> story_id = ''US-B'', story_role = ''As an admin'',
          story_action = ''I want to Manage ANALYTICS'',
          story_benefit = ''So that I see usage'',
          story_priority = ''low'', story_points = 3 \<rparr> ]) ''US-B''
   = Some \<lparr> cb_story = ''I want to Manage ANALYTICS'', cb_criteria = crud_checklist \<rparr>
   \<and> story_criteria ''I want to MANAGE my Account'' = auth_checklist
   \<and> story_criteria ''I want to Manage ANALYTICS'' = crud_checklist"
proof -
  let ?a = "\<lparr> story_id = ''US-A'', story_role = ''As a user'',
          story_action = ''I want to MANAGE my Account'',
          story_benefit = ''So that I stay in control'',
          story_priority = ''high'', story_points = 2 \<rparr>"
  let ?b = "\<lparr> story_id = ''US-B'', story_role = ''As an admin'',
          story_action = ''I want to Manage ANALYTICS'',
          story_benefit = ''So that I see usage'',
          story_priority = ''low'', story_points = 3 \<rparr>"
  let ?spec = "create_feature_spec hd ''Shop'' None"
  have ha: "story_id ?a \<notin> story_id ` set [?b]" by simp
  have hb: "story_id ?b \<notin> story_id ` set []" by simp
  have ea: "occurs_ignoring_case ''account'' ''I want to MANAGE my Account''"
    by (simp add: same_letter_def small_letters_def capital_letters_def)
  have eb: "\<not> occurs_ignoring_case ''account'' ''I want to Manage ANALYTICS''"
    "occurs_ignoring_case ''manage'' ''I want to Manage ANALYTICS''"
    by (simp_all add: same_letter_def small_letters_def capital_letters_def)
  have a: "map_of (generate_acceptance_criteria ?spec ([] @ ?a # [?b])) ''US-A''
      = Some \<lparr> cb_story = ''I want to MANAGE my Account'', cb_criteria = auth_checklist \<rparr>"
    using criteria_first_match_wins [OF ha, of ?spec "[]"] ea
    by (simp only: story.simps if_True)
  have b: "map_of (generate_acceptance_criteria ?spec ([?a] @ ?b # [])) ''US-B''
      = Some \<lparr> cb_story = ''I want to Manage ANALYTICS'', cb_criteria = crud_checklist \<rparr>"
    using criteria_first_match_wins [OF hb, of ?spec "[?a]"] eb
    by (simp only: story.simps if_True if_False)
  have c: "story_criteria ''I want to MANAGE my Account'' = auth_checklist"
    "story_criteria ''I want to Manage ANALYTICS'' = crud_checklist"
    by (simp_all add: story_criteria_def lower_def lower_char_def isupper_def)
  from a b c show ?thesis by (simp only: append.simps simp_thms)
qed

text \<open>
  Claim C3, as the code has it. The block of a story holds the five-item authentication
  checklist when the action text contains \<open>account\<close>; the five-item CRUD checklist when
  it contains \<open>manage\<close> and not \<open>account\<close>; the four-item dashboard checklist when it
  contains \<open>analytics\<close> and neither of the other two; the four-item generic checklist
  when it contains none of the three (containment with letter case ignored).
\<close>

theorem checklist_by_trigger:
  assumes "distinct (map story_id stories)" and "story \<in> set stories"
  shows "\<exists>block. map_of (generate_acceptance_criteria spec stories) (story_id story) = Some block
     \<and> cb_story block = story_action story
     \<and> (contains ''account'' (lower (story_action story)) \<longrightarrow>
          cb_criteria block = auth_checklist \<and> length (cb_criteria block) = 5)
     \<and> (\<not> contains ''account'' (lower (story_action story))
          \<and> contains ''manage'' (lower (story_action story)) \<longrightarrow>
          cb_criteria block = crud_checklist \<and> length (cb_criteria block) = 5)
     \<and> (\<not> contains ''account'' (lower (story_action story))
          \<and> \<not> contains ''manage'' (lower (story_action story))
          \<and> contains ''analytics'' (lower (story_action story)) \<longrightarrow>
          cb_criteria block = dashboard_checklist \<and> length (cb_criteria block) = 4)
     \<and> (\<not> contains ''account'' (lower (story_action story))
          \<and> \<not> contains ''manage'' (lower (story_action story))
          \<and> \<not> contains ''analytics'' (lower (story_action story)) \<longrightarrow>
          cb_criteria block = generic_checklist \<and> length (cb_criteria block) = 4)"
  using criteria_loop_lookup [OF assms, of "[]"]
  by (simp add: generate_acceptance_criteria_def story_criteria_def checklist_lengths)

theorem checklist_by_trigger_witness:
  "\<exists>block. map_of (generate_acceptance_criteria (create_feature_spec hd ''Shop'' None)
        (generate_user_stories (create_feature_spec hd ''Shop'' None))) ''US-004'' = Some block
     \<and> cb_story block = ''I want to view user analytics''
     \<and> cb_criteria block = dashboard_checklist \<and> length (cb_criteria block) = 4"
proof -
  let ?spec = "create_feature_spec hd ''Shop'' None"
  let ?s = "\<lparr> story_id = ''US-004'', story_role = ''As an admin'',
         story_action = ''I want to view user analytics'',
         story_benefit = ''So that I can understand usage patterns'',
         story_priority = ''medium'', story_points = 8 \<rparr>"
  have m: "?s \<in> set (generate_user_stories ?spec)"
    by (simp add: generate_user_stories_def)
  have a: "\<not> contains ''account'' (lower ''I want to view user analytics'')"
    "\<not> contains ''manage'' (lower ''I want to view user analytics'')"
    "contains ''analytics'' (lower ''I want to view user analytics'')"
    by (simp_all add: lower_def lower_char_def isupper_def)
  show ?thesis
    using checklist_by_trigger [OF story_ids_distinct m, of ?spec] a
    by (simp only: story.simps) blast
qed

text \<open>
  An action text with \<open>manage\<close> and \<open>account\<close> gets the authentication checklist, not
  the CRUD checklist: story US-001 for the idea \<open>account manager\<close>.
\<close>

theorem manage_with_account_counterexample:
  "contains ''manage'' (lower (''I want to access '' @ ''account manager''))
   \<and> map_of (generate_acceptance_criteria (create_feature_spec hd ''account manager'' None)
        (generate_user_stories (create_feature_spec hd ''account manager'' None))) ''US-001''
     = Some \<lparr> cb_story = ''I want to access '' @ ''account manager'',
              cb_criteria = auth_checklist \<rparr>
   \<and> auth_checklist \<noteq> crud_checklist"
proof -
  have t: "spec_title (create_feature_spec hd ''account manager'' None) = ''account manager''"
    by (simp add: create_feature_spec_def)
  have c: "story_criteria ''account manager'' = auth_checklist"
    by (simp add: story_criteria_def lower_def lower_char_def isupper_def)
  have m: "contains ''manage'' (lower (''I want to access '' @ ''account manager''))"
    by (simp add: lower_def lower_char_def isupper_def)
  show ?thesis
    using first_story_criteria [of "create_feature_spec hd ''account manager'' None"
        "create_feature_spec hd ''account manager'' None"] m checklists_differ(4)
    unfolding t c by blast
qed

lemma fixed_story_triggers:
  "matched_triggers ''I want to create an account'' = [''account'']"
  "matched_triggers ''I want to manage my content'' = [''manage'']"
  "matched_triggers ''I want to view user analytics'' = [''analytics'']"
  "matched_triggers ''I want to export my data'' = []"
  "matched_triggers ''I want to receive notifications'' = []"
  by (simp_all add: matched_triggers_def triggers_def lower_def lower_char_def isupper_def)

lemma story_actions:
  "map story_action (generate_user_stories spec) =
     [''I want to access '' @ spec_title spec, ''I want to create an account'',
      ''I want to manage my content'', ''I want to view user analytics'',
      ''I want to export my data'', ''I want to receive notifications'']"
  by (simp add: generate_user_stories_def)

lemma story_trigger_list:
  "map (\<lambda>s. matched_triggers (story_action s))
       (generate_user_stories (create_feature_spec choice idea tech))
   = [matched_triggers idea, [''account''], [''manage''], [''analytics''], [], []]"
proof -
  have t: "spec_title (create_feature_spec choice idea tech) = idea"
    by (simp add: create_feature_spec_def)
  have "map (\<lambda>s. matched_triggers (story_action s))
          (generate_user_stories (create_feature_spec choice idea tech))
        = map matched_triggers
            (map story_action (generate_user_stories (create_feature_spec choice idea tech)))"
    by (simp add: o_def)
  also have "\<dots> = [matched_triggers idea, [''account''], [''manage''], [''analytics''], [], []]"
    unfolding story_actions t
    by (simp only: list.map matched_action fixed_story_triggers)
  finally show ?thesis .
qed

text \<open>
  Claim C4, as the code has it. Whatever the idea, stories US-002 to US-004 contain one
  trigger word each and US-005 and US-006 none, and story US-001 contains exactly the
  trigger words that the idea contains. The generator is the rule list tried in the
  order \<open>account\<close>, \<open>manage\<close>, \<open>analytics\<close>, and for a generated story with at most one
  trigger word every other order of the three rules gives the same checklist.
\<close>

theorem story_triggers:
  "map (\<lambda>s. matched_triggers (story_action s))
       (generate_user_stories (create_feature_spec choice idea tech))
   = [matched_triggers idea, [''account''], [''manage''], [''analytics''], [], []]
   \<and> story_criteria action = first_match checklist_rules action
   \<and> (\<forall>story rules.
         story \<in> set (generate_user_stories (create_feature_spec choice idea tech))
         \<and> length (matched_triggers (story_action story)) \<le> 1
         \<and> distinct rules \<and> set rules = set checklist_rules \<longrightarrow>
         first_match rules (story_action story) = story_criteria (story_action story))"
  using story_trigger_list [of choice idea tech] story_criteria_first_match [of action]
    first_match_order
  by blast

theorem story_triggers_witness:
  "map (\<lambda>s. matched_triggers (story_action s))
       (generate_user_stories (create_feature_spec hd ''Task management app'' None))
   = [[''manage''], [''account''], [''manage''], [''analytics''], [], []]
   \<and> first_match (rev checklist_rules) (''I want to access '' @ ''Task management app'')
     = story_criteria (''I want to access '' @ ''Task management app'')"
proof -
  let ?spec = "create_feature_spec hd ''Task management app'' None"
  let ?s = "\<lparr> story_id = ''US-001'', story_role = ''As a user'',
     story_action = ''I want to access '' @ spec_title ?spec,
     story_benefit = ''So that I can use the core functionality'',
     story_priority = ''high'', story_points = 3 \<rparr>"
  have t: "spec_title ?spec = ''Task management app''"
    by (simp add: create_feature_spec_def)
  have mi: "matched_triggers ''Task management app'' = [''manage'']"
    by (simp add: matched_triggers_def triggers_def lower_def lower_char_def isupper_def)
  have one: "length (matched_triggers (story_action ?s)) \<le> 1"
    by (simp only: story.simps t matched_action mi) simp
  have r: "distinct (rev checklist_rules) \<and> set (rev checklist_rules) = set checklist_rules"
    by (auto simp: checklist_rules_def)
  note w = story_triggers [of hd "''Task management app''" None "''x''"]
  from w have "map (\<lambda>s. matched_triggers (story_action s)) (generate_user_stories ?spec)
   = [[''manage''], [''account''], [''manage''], [''analytics''], [], []]"
    unfolding mi by blast
  moreover from w first_story [of ?spec] one r
  have "first_match (rev checklist_rules) (story_action ?s) = story_criteria (story_action ?s)"
    by blast
  ultimately show ?thesis by (simp only: story.simps t) 
qed

text \<open>
  For the idea \<open>account manager\<close> story US-001 contains two trigger words, and the
  order of the checks decides its checklist.
\<close>

theorem two_triggers_counterexample:
  "matched_triggers (story_action (hd (generate_user_stories
       (create_feature_spec hd ''account manager'' None)))) = [''account'', ''manage'']
   \<and> story_criteria (story_action (hd (generate_user_stories
       (create_feature_spec hd ''account manager'' None)))) = auth_checklist
   \<and> first_match (rev checklist_rules) (story_action (hd (generate_user_stories
       (create_feature_spec hd ''account manager'' None)))) = crud_checklist"
proof -
  have a: "story_action (hd (generate_user_stories (create_feature_spec hd ''account manager'' None)))
      = ''I want to access account manager''"
    by (simp add: generate_user_stories_def create_feature_spec_def)
  show ?thesis
    unfolding a
    by (simp add: matched_triggers_def triggers_def story_criteria_def checklist_rules_def
        lower_def lower_char_def isupper_def)
qed

lemma spec_title_idea: "spec_title (create_feature_spec choice idea tech) = idea"
  by (simp add: create_feature_spec_def)

lemma run_first_story_criteria:
  assumes "generate_feature w idea tech = Inr (data, root')"
  shows "map_of (fd_acceptance_criteria data) ''US-001'' =
     Some \<lparr> cb_story = ''I want to access '' @ idea, cb_criteria = story_criteria idea \<rparr>"
  unfolding generate_feature_InrD(5) [OF assms]
  using first_story_criteria [of "create_feature_spec (random_choice w) idea tech"
      "create_feature_spec (random_choice w) idea tech"]
  unfolding spec_title_idea .

lemma task_management_checklist: "story_criteria ''Task management app'' = crud_checklist"
  by (simp add: story_criteria_def lower_def lower_char_def isupper_def)

text \<open>
  Claim C10. In every run that returns a record for an idea containing one of the
  trigger words (letter case ignored), story US-001 gets the checklist of the first
  trigger word, in the order of the checks, that the idea contains, and not the generic
  checklist. In particular every run on the idea \<open>Task management app\<close> gives US-001 the
  five-item CRUD checklist.
\<close>

theorem idea_trigger_reaches_first_story:
  "(generate_feature w idea tech = Inr (data, root')
    \<and> (contains ''account'' (lower idea) \<or> contains ''manage'' (lower idea)
       \<or> contains ''analytics'' (lower idea)) \<longrightarrow>
    map_of (fd_acceptance_criteria data) ''US-001'' =
      Some \<lparr> cb_story = ''I want to access '' @ idea,
             cb_criteria =
               (if contains ''account'' (lower idea) then auth_checklist
                else if contains ''manage'' (lower idea) then crud_checklist
                else dashboard_checklist) \<rparr>
    \<and> (if contains ''account'' (lower idea) then auth_checklist
        else if contains ''manage'' (lower idea) then crud_checklist
        else dashboard_checklist) \<noteq> generic_checklist)
   \<and> (generate_feature w' ''Task management app'' tech' = Inr (data', root'') \<longrightarrow>
        map_of (fd_acceptance_criteria data') ''US-001'' =
          Some \<lparr> cb_story = ''I want to access '' @ ''Task management app'',
                 cb_criteria = crud_checklist \<rparr>
        \<and> length crud_checklist = 5)"
proof (intro conjI impI)
  assume h: "generate_feature w idea tech = Inr (data, root')
    \<and> (contains ''account'' (lower idea) \<or> contains ''manage'' (lower idea)
       \<or> contains ''analytics'' (lower idea))"
  then have c: "story_criteria idea =
      (if contains ''account'' (lower idea) then auth_checklist
       else if contains ''manage'' (lower idea) then crud_checklist
       else dashboard_checklist)"
    by (auto simp: story_criteria_def)
  from h have "generate_feature w idea tech = Inr (data, root')" by blast
  from run_first_story_criteria [OF this]
  show "map_of (fd_acceptance_criteria data) ''US-001'' =
      Some \<lparr> cb_story = ''I want to access '' @ idea,
             cb_criteria =
               (if contains ''account'' (lower idea) then auth_checklist
                else if contains ''manage'' (lower idea) then crud_checklist
                else dashboard_checklist) \<rparr>"
    unfolding c .
  show "(if contains ''account'' (lower idea) then auth_checklist
        else if contains ''manage'' (lower idea) then crud_checklist
        else dashboard_checklist) \<noteq> generic_checklist"
    using checklists_differ by simp
next
  assume "generate_feature w' ''Task management app'' tech' = Inr (data', root'')"
  from run_first_story_criteria [OF this]
  show "map_of (fd_acceptance_criteria data') ''US-001'' =
          Some \<lparr> cb_story = ''I want to access '' @ ''Task management app'',
                 cb_criteria = crud_checklist \<rparr>"
    unfolding task_management_checklist .
next
  show "length crud_checklist = 5" by (rule checklist_lengths)
qed

theorem idea_trigger_reaches_first_story_witness:
  "map_of (generate_acceptance_criteria (create_feature_spec hd ''Web Analytics board'' (Some ''Go''))
      (generate_user_stories (create_feature_spec hd ''Web Analytics board'' (Some ''Go''))))
      ''US-001''
     = Some \<lparr> cb_story = ''I want to access '' @ ''Web Analytics board'',
              cb_criteria = dashboard_checklist \<rparr>
   \<and> map_of (generate_acceptance_criteria (create_feature_spec hd ''Task management app'' None)
      (generate_user_stories (create_feature_spec hd ''Task management app'' None))) ''US-001''
     = Some \<lparr> cb_story = ''I want to access '' @ ''Task management app'',
              cb_criteria = crud_checklist \<rparr>"
proof -
  have a: "\<not> contains ''account'' (lower ''Web Analytics board'')"
    "\<not> contains ''manage'' (lower ''Web Analytics board'')"
    "contains ''analytics'' (lower ''Web Analytics board'')"
    by (simp_all add: lower_def lower_char_def isupper_def)
  note r1 = run_empty_root [of "''20260101''" "''2026-01-01T09:30:00.000000''" hd
      "''Web Analytics board''" "Some ''Go''"]
  note r2 = run_empty_root [of "''20260101''" "''2026-01-01T09:30:00.000000''" hd
      "''Task management app''" None]
  have h: "contains ''account'' (lower ''Web Analytics board'')
      \<or> contains ''manage'' (lower ''Web Analytics board'')
      \<or> contains ''analytics'' (lower ''Web Analytics board'')"
    using a(3) by blast
  note t1 = idea_trigger_reaches_first_story [THEN conjunct1, THEN mp, OF conjI, OF r1 h]
  note t2 = idea_trigger_reaches_first_story [THEN conjunct2, THEN mp, OF r2]
  from t1 t2 a show ?thesis
    by (simp only: feature_data.simps if_True if_False simp_thms)
qed

section \<open>The identifier allocator\<close>

lemma digit_char_digit: "d < 10 \<Longrightarrow> digit_char d \<in> set ''0123456789''"
  unfolding digit_char_def by (rule nth_mem) simp

lemma str_nat_digits: "set (str_nat n) \<subseteq> set ''0123456789''"
proof (induction n rule: str_nat.induct)
  case (1 n)
  show ?case
  proof (cases "n < 10")
    case True
    then show ?thesis
      using digit_char_digit [of n] by (subst str_nat.simps) simp
  next
    case False
    with 1 have "set (str_nat (n div 10)) \<subseteq> set ''0123456789''" by simp
    moreover have "digit_char (n mod 10) \<in> set ''0123456789''"
      by (rule digit_char_digit) simp
    ultimately show ?thesis
      using False by (subst str_nat.simps) simp
  qed
qed

lemma format_04d_digits: "set (format_04d n) \<subseteq> set ''0123456789''"
  using str_nat_digits [of n] by (auto simp: format_04d_def)

lemma feature_id_matches: "startswith (generate_feature_id ts root) ''feat_''"
  by (simp add: generate_feature_id_def startswith_def Let_def)

lemma mkdir_new_sequence:
  assumes "map_of root (generate_feature_id ts root) = None"
    and "mkdir_exist_ok (generate_feature_id ts root) root = Inr root'"
  shows "next_sequence root' = next_sequence root + 1"
  using assms feature_id_matches [of ts root]
  by (auto simp: mkdir_exist_ok_def next_sequence_def glob_feat_def)

lemma glob_feat_many:
  "length (glob_feat (map (\<lambda>i. (''feat_'' @ str_nat i, Directory)) ns)) = length ns"
  by (induction ns) (simp_all add: glob_feat_def startswith_def)

lemma format_04d_10000: "format_04d 10000 = ''10000''"
  by (simp add: format_04d_def str_nat.simps digit_char_def)

lemma format_04d_2: "format_04d 2 = ''0002''"
  by (simp add: format_04d_def str_nat.simps digit_char_def eval_nat_numeral)

text \<open>
  Claim C5, as the code has it. The identifier is \<open>feat_\<close>, the clock's date string,
  \<open>_\<close>, and the sequence number, which is one more than the number of entries of the
  artifact root whose name starts with \<open>feat_\<close>, whatever their date. The number is
  written in decimal digits and padded with zeros to at least four digits: exactly four
  below 10000. A run that returns a record and whose identifier names no entry already
  in the root leaves a root whose next sequence number is one higher, whatever the date
  of the next run.
\<close>

theorem feature_id_sequence:
  "generate_feature_id ts root = ''feat_'' @ ts @ ''_'' @ format_04d (next_sequence root)
   \<and> next_sequence root = 1 + length (filter (\<lambda>entry. prefix ''feat_'' (fst entry)) root)
   \<and> parse_decimal (format_04d (next_sequence root)) = next_sequence root
   \<and> set (format_04d (next_sequence root)) \<subseteq> set ''0123456789''
   \<and> 4 \<le> length (format_04d (next_sequence root))
   \<and> (next_sequence root < 10000 \<longrightarrow> length (format_04d (next_sequence root)) = 4)
   \<and> (generate_feature w idea tech = Inr (data, root')
        \<and> map_of (projects_dir w) (fd_id data) = None \<longrightarrow>
        next_sequence root' = next_sequence (projects_dir w) + 1
        \<and> next_sequence (projects_dir w) < next_sequence root')"
proof (intro conjI impI)
  show "generate_feature_id ts root = ''feat_'' @ ts @ ''_'' @ format_04d (next_sequence root)"
    by (simp add: generate_feature_id_def next_sequence_def Let_def)
  show "next_sequence root = 1 + length (filter (\<lambda>entry. prefix ''feat_'' (fst entry)) root)"
    by (simp add: next_sequence_def glob_feat_def startswith_def)
  show "parse_decimal (format_04d (next_sequence root)) = next_sequence root"
    by (rule parse_format_04d)
  show "set (format_04d (next_sequence root)) \<subseteq> set ''0123456789''"
    by (rule format_04d_digits)
  show "4 \<le> length (format_04d (next_sequence root))"
    by (rule length_format_04d)
  show "length (format_04d (next_sequence root)) = 4" if "next_sequence root < 10000"
    using that by (rule length_format_04d_small)
next
  assume h: "generate_feature w idea tech = Inr (data, root')
        \<and> map_of (projects_dir w) (fd_id data) = None"
  then have r: "generate_feature w idea tech = Inr (data, root')" by blast
  note d = generate_feature_InrD(1,2) [OF r]
  from h have "map_of (projects_dir w) (generate_feature_id (now_ymd w) (projects_dir w)) = None"
    unfolding d(2) by blast
  then show s: "next_sequence root' = next_sequence (projects_dir w) + 1"
    using d(1) by (rule mkdir_new_sequence)
  show "next_sequence (projects_dir w) < next_sequence root'"
    unfolding s by simp
qed


theorem feature_id_sequence_witness:
  "generate_feature_id ''20260101'' [] = ''feat_'' @ ''20260101'' @ ''_'' @ ''0001''
   \<and> length (format_04d (next_sequence [])) = 4
   \<and> next_sequence [(''feat_'' @ ''20260101'' @ ''_0001'', Directory)] = next_sequence [] + 1
   \<and> next_sequence [] < next_sequence [(''feat_'' @ ''20260101'' @ ''_0001'', Directory)]"
proof -
  note r = run_empty_root [of "''20260101''" "''2026-01-01T09:30:00.000000''" hd "''x''" None]
  have n: "next_sequence [] = Suc 0" by (simp add: next_sequence_def glob_feat_def)
  have "generate_feature_id ''20260101'' []
      = ''feat_'' @ ''20260101'' @ ''_'' @ format_04d (next_sequence [])"
    by (rule feature_id_sequence [THEN conjunct1])
  then have a: "generate_feature_id ''20260101'' [] = ''feat_'' @ ''20260101'' @ ''_'' @ ''0001''"
    unfolding n format_04d_1 .
  have "next_sequence [] < 10000" unfolding n by simp
  with feature_id_sequence [of "''20260101''" "[]"]
  have b: "length (format_04d (next_sequence [])) = 4" by blast
  note c = feature_id_sequence [THEN conjunct2, THEN conjunct2, THEN conjunct2, THEN conjunct2,
      THEN conjunct2, THEN conjunct2, THEN mp, OF conjI, OF r]
  have "next_sequence [(''feat_'' @ ''20260101'' @ ''_0001'', Directory)] = next_sequence [] + 1
      \<and> next_sequence [] < next_sequence [(''feat_'' @ ''20260101'' @ ''_0001'', Directory)]"
    using c by (simp only: world.simps map_of.simps simp_thms)
  with a b show ?thesis by blast
qed

lemma run_existing_id:
  "generate_feature
     \<lparr> projects_dir = [(''feat_20260101_0002'', Directory)], now_ymd = ''20260101'',
       now_iso = created, random_choice = ch \<rparr> idea tech
   = Inr (\<lparr> fd_id = ''feat_20260101_0002'',
             fd_idea = idea,
             fd_specification = create_feature_spec ch idea tech,
             fd_user_stories = generate_user_stories (create_feature_spec ch idea tech),
             fd_acceptance_criteria =
               generate_acceptance_criteria (create_feature_spec ch idea tech)
                 (generate_user_stories (create_feature_spec ch idea tech)),
             fd_technical_requirements =
               generate_technical_requirements (create_feature_spec ch idea tech) tech,
             fd_api_specification = generate_api_spec (create_feature_spec ch idea tech),
             fd_database_schema = generate_database_schema (create_feature_spec ch idea tech),
             fd_status = ''spec_ready'',
             fd_created_at = created,
             fd_pm_agent = ''v1.0'' \<rparr>,
           [(''feat_20260101_0002'', Directory)])"
proof -
  have n: "length (glob_feat [(''feat_20260101_0002'', Directory)]) + 1 = 2"
    by (simp add: glob_feat_def startswith_def)
  have i: "generate_feature_id ''20260101'' [(''feat_20260101_0002'', Directory)]
      = ''feat_20260101_0002''"
    unfolding generate_feature_id_def Let_def n format_04d_2 by simp
  have m: "mkdir_exist_ok ''feat_20260101_0002'' [(''feat_20260101_0002'', Directory)]
      = Inr [(''feat_20260101_0002'', Directory)]"
    by (simp add: mkdir_exist_ok_def)
  show ?thesis
    unfolding generate_feature_def Let_def world.simps i m by simp
qed

text \<open>
  When the allocated identifier names a directory already in the root, the run adds no
  entry and the next run, on any date, gets the same sequence number again; and with
  9999 entries the sequence number has five digits.
\<close>

theorem repeated_sequence_counterexample:
  "\<not> isl (generate_feature
      \<lparr> projects_dir = [(''feat_20260101_0002'', Directory)], now_ymd = ''20260101'',
        now_iso = ''2026-01-01T09:30:00.000000'', random_choice = hd \<rparr> ''Shop'' None)
   \<and> fd_id (fst (projr (generate_feature
      \<lparr> projects_dir = [(''feat_20260101_0002'', Directory)], now_ymd = ''20260101'',
        now_iso = ''2026-01-01T09:30:00.000000'', random_choice = hd \<rparr> ''Shop'' None)))
     = ''feat_20260101_0002''
   \<and> snd (projr (generate_feature
      \<lparr> projects_dir = [(''feat_20260101_0002'', Directory)], now_ymd = ''20260101'',
        now_iso = ''2026-01-01T09:30:00.000000'', random_choice = hd \<rparr> ''Shop'' None))
     = [(''feat_20260101_0002'', Directory)]
   \<and> generate_feature_id ''20260102'' [(''feat_20260101_0002'', Directory)]
     = ''feat_20260102_0002''
   \<and> generate_feature_id ''20260101''
        (map (\<lambda>i. (''feat_'' @ str_nat i, Directory)) [0..<9999])
     = ''feat_20260101_10000''"
proof -
  have n: "length (glob_feat [(''feat_20260101_0002'', Directory)]) + 1 = 2"
    by (simp add: glob_feat_def startswith_def)
  have a: "generate_feature_id ''20260102'' [(''feat_20260101_0002'', Directory)]
     = ''feat_20260102_0002''"
    unfolding generate_feature_id_def Let_def n format_04d_2 by simp
  have e: "length (glob_feat (map (\<lambda>i. (''feat_'' @ str_nat i, Directory)) [0..<9999])) + 1
      = 10000"
    using glob_feat_many [of "[0..<9999]"] by simp
  have b: "generate_feature_id ''20260101''
        (map (\<lambda>i. (''feat_'' @ str_nat i, Directory)) [0..<9999])
     = ''feat_20260101_10000''"
    unfolding generate_feature_id_def Let_def e format_04d_10000 by simp
  show ?thesis
    unfolding run_existing_id sum.sel sum.disc fst_conv snd_conv feature_data.simps
    using a b by simp
qed

section \<open>The end-to-end scenario\<close>

lemma readme_first_line:
  assumes "CHR 0x0A \<notin> set (spec_title (fd_specification data))"
  shows "takeWhile (\<lambda>c. c \<noteq> CHR 0x0A) (generate_readme data)
           = ''# '' @ spec_title (fd_specification data)"
proof -
  obtain rest where r: "generate_readme data
      = (''# '' @ spec_title (fd_specification data)) @ CHR 0x0A # rest"
    by (simp add: generate_readme_def nl_def Let_def)
  have "\<forall>c \<in> set (''# '' @ spec_title (fd_specification data)). c \<noteq> CHR 0x0A"
    using assms by auto
  then show ?thesis unfolding r by (simp add: takeWhile_tail)
qed

text \<open>
  Claim C6. Every run on the idea \<open>Task management app\<close> with no tech-stack argument
  that returns a record gives the title \<open>Task management app\<close>, the default tech-stack
  placeholder, \<open>Core Task management app functionality\<close> as the first MVP feature, and
  a summary document whose first line is \<open># Task management app\<close>.
\<close>

theorem task_management_scenario:
  assumes "generate_feature w ''Task management app'' None = Inr (data, root')"
  shows "spec_title (fd_specification data) = ''Task management app''
       \<and> spec_tech_stack (fd_specification data) = ''Modern web stack (TBD by Dev team)''
       \<and> spec_mvp_features (fd_specification data) \<noteq> []
       \<and> hd (spec_mvp_features (fd_specification data)) = ''Core Task management app functionality''
       \<and> takeWhile (\<lambda>c. c \<noteq> CHR 0x0A) (generate_readme data) = ''# Task management app''"
proof -
  note s = generate_feature_InrD(3) [OF assms]
  have t: "spec_title (fd_specification data) = ''Task management app''"
    unfolding s by (simp add: create_feature_spec_def)
  have "CHR 0x0A \<notin> set (spec_title (fd_specification data))"
    unfolding t by simp
  from readme_first_line [OF this]
  have l: "takeWhile (\<lambda>c. c \<noteq> CHR 0x0A) (generate_readme data) = ''# Task management app''"
    unfolding t by simp
  have "spec_tech_stack (fd_specification data) = ''Modern web stack (TBD by Dev team)''"
    unfolding s by (simp add: create_feature_spec_def tech_stack_or_default_def
        default_tech_stack_def)
  moreover have "spec_mvp_features (fd_specification data) \<noteq> []
       \<and> hd (spec_mvp_features (fd_specification data)) = ''Core Task management app functionality''"
    unfolding s by (simp add: create_feature_spec_def)
  ultimately show ?thesis using t l by blast
qed

theorem task_management_scenario_witness:
  "\<not> isl (generate_feature
      \<lparr> projects_dir = [], now_ymd = ''20260101'', now_iso = ''2026-01-01T09:30:00.000000'',
        random_choice = hd \<rparr> ''Task management app'' None)
   \<and> spec_title (fd_specification (fst (projr (generate_feature
      \<lparr> projects_dir = [], now_ymd = ''20260101'', now_iso = ''2026-01-01T09:30:00.000000'',
        random_choice = hd \<rparr> ''Task management app'' None)))) = ''Task management app''
   \<and> takeWhile (\<lambda>c. c \<noteq> CHR 0x0A) (generate_readme (fst (projr (generate_feature
      \<lparr> projects_dir = [], now_ymd = ''20260101'', now_iso = ''2026-01-01T09:30:00.000000'',
        random_choice = hd \<rparr> ''Task management app'' None)))) = ''# Task management app''"
proof -
  note t = task_management_scenario [OF run_empty_root
      [of "''20260101''" "''2026-01-01T09:30:00.000000''" hd "''Task management app''" None]]
  show ?thesis
    unfolding run_empty_root
    by (simp only: sum.sel sum.disc fst_conv t simp_thms)
qed

section \<open>The category of the specification\<close>

lemma spec_choice:
  "create_feature_spec c1 idea tech
     = (create_feature_spec c2 idea tech) \<lparr> spec_type := c1 feature_types \<rparr>"
  by (simp add: create_feature_spec_def)

lemma stories_ignore_type:
  "generate_user_stories (spec \<lparr> spec_type := ty \<rparr>) = generate_user_stories spec"
  by (simp add: generate_user_stories_def)

lemma readme_ignores_type:
  "generate_readme (data \<lparr> fd_specification := (fd_specification data) \<lparr> spec_type := ty \<rparr> \<rparr>)
     = generate_readme data"
  by (simp add: generate_readme_def Let_def)

text \<open>
  Claim C7. Two runs in the same world on the same idea and tech-stack, with any two
  random choices of the category, fail alike or return records with the same identifier,
  user stories, acceptance criteria, technical requirements, API specification, database
  schema and summary document, and the same listing.
\<close>

theorem category_has_no_influence:
  "map_sum id downstream (generate_feature (w \<lparr> random_choice := c1 \<rparr>) idea tech)
     = map_sum id downstream (generate_feature (w \<lparr> random_choice := c2 \<rparr>) idea tech)"
proof (cases "mkdir_exist_ok (generate_feature_id (now_ymd w) (projects_dir w)) (projects_dir w)")
  case (Inl e)
  then show ?thesis by (simp add: generate_feature_def Let_def)
next
  case (Inr r)
  let ?s1 = "create_feature_spec c1 idea tech"
  let ?s2 = "create_feature_spec c2 idea tech"
  have s: "?s1 = ?s2 \<lparr> spec_type := c1 feature_types \<rparr>" by (rule spec_choice)
  have st: "generate_user_stories ?s1 = generate_user_stories ?s2"
    by (subst s) (rule stories_ignore_type)
  have ac: "generate_acceptance_criteria ?s1 stories = generate_acceptance_criteria ?s2 stories"
    for stories
    by (simp add: generate_acceptance_criteria_def)
  have tr: "generate_technical_requirements ?s1 tech = generate_technical_requirements ?s2 tech"
    by (simp add: generate_technical_requirements_def)
  have ap: "generate_api_spec ?s1 = generate_api_spec ?s2"
    by (simp add: generate_api_spec_def)
  have db: "generate_database_schema ?s1 = generate_database_schema ?s2"
    by (simp add: generate_database_schema_def)
  have rd: "generate_readme
         \<lparr> fd_id = i, fd_idea = idea, fd_specification = ?s1, fd_user_stories = us,
           fd_acceptance_criteria = cr, fd_technical_requirements = rq,
           fd_api_specification = a, fd_database_schema = d, fd_status = stt,
           fd_created_at = ca, fd_pm_agent = pm \<rparr>
       = generate_readme
         \<lparr> fd_id = i, fd_idea = idea, fd_specification = ?s2, fd_user_stories = us,
           fd_acceptance_criteria = cr, fd_technical_requirements = rq,
           fd_api_specification = a, fd_database_schema = d, fd_status = stt,
           fd_created_at = ca, fd_pm_agent = pm \<rparr>" for i us cr rq a d stt ca pm
    using readme_ignores_type [where ty = "c1 feature_types" and data = "\<lparr> fd_id = i, fd_idea = idea, fd_specification = ?s2,
           fd_user_stories = us,
           fd_acceptance_criteria = cr, fd_technical_requirements = rq,
           fd_api_specification = a, fd_database_schema = d, fd_status = stt,
           fd_created_at = ca, fd_pm_agent = pm \<rparr>"]
    by (simp add: s)
  show ?thesis
    using Inr by (simp add: generate_feature_def Let_def downstream_def st ac tr ap db rd)
qed


theorem category_has_no_influence_witness:
  "spec_type (create_feature_spec hd ''Shop'' None)
     \<noteq> spec_type (create_feature_spec last ''Shop'' None)
   \<and> \<not> isl (generate_feature
        (\<lparr> projects_dir = [], now_ymd = ''20260101'',
           now_iso = ''2026-01-01T09:30:00.000000'', random_choice = hd \<rparr>
           \<lparr> random_choice := last \<rparr>) ''Shop'' None)
   \<and> map_sum id downstream (generate_feature
        (\<lparr> projects_dir = [], now_ymd = ''20260101'',
           now_iso = ''2026-01-01T09:30:00.000000'', random_choice = hd \<rparr>
           \<lparr> random_choice := hd \<rparr>) ''Shop'' None)
     = map_sum id downstream (generate_feature
        (\<lparr> projects_dir = [], now_ymd = ''20260101'',
           now_iso = ''2026-01-01T09:30:00.000000'', random_choice = hd \<rparr>
           \<lparr> random_choice := last \<rparr>) ''Shop'' None)"
proof -
  have a: "spec_type (create_feature_spec hd ''Shop'' None)
     \<noteq> spec_type (create_feature_spec last ''Shop'' None)"
    by (simp add: create_feature_spec_def feature_types_def)
  have b: "\<not> isl (generate_feature
        (\<lparr> projects_dir = [], now_ymd = ''20260101'',
           now_iso = ''2026-01-01T09:30:00.000000'', random_choice = hd \<rparr>
           \<lparr> random_choice := last \<rparr>) ''Shop'' None)"
    unfolding world.simps run_empty_root by simp
  show ?thesis
    using a b category_has_no_influence [where w = "\<lparr> projects_dir = [], now_ymd = ''20260101'',
           now_iso = ''2026-01-01T09:30:00.000000'', random_choice = hd \<rparr>"
        and ?c1.0 = hd and idea = "''Shop''" and tech = None and ?c2.0 = last]
    by blast
qed

end
